theory Spec2Isabelle
  imports Complex_Main
begin

section \<open>The objects \<open>MediaController\<close> reads and writes\<close>

text \<open>
  \<open>cozy/ui/media_controller.py\<close> is a GTK view controller. Its methods read the
  properties of an injected \<open>PlaybackControlViewModel\<close>, assign attributes of the
  widgets of its template, and call methods of two injected view models. The embedding
  is by explicit state passing:
  \<^item> the view model's properties, as a method reads them, are a record \<open>view_model\<close>;
  \<^item> the attributes of the widgets that the controller assigns are the fields of the
    record \<open>world\<close>, and an assignment or a GTK setter overwrites its field;
  \<^item> a call of a method of an injected object (a view model, the main window) is
    appended to a log kept in \<open>world\<close>, with the method's name as Python resolves it:
    by string. What such a call does inside the other object is not part of this file.
  Numbers (\<open>volume\<close>, \<open>length\<close>, \<open>relative_position\<close>) are only copied from the view
  model to a widget and back, never computed with; they are \<open>real\<close>.
\<close>

text \<open>
  What the controller reads of a \<open>Book\<close> (\<open>cozy.db.book\<close>): \<open>book.name\<close> and
  \<open>book.current_chapter.name\<close>. A paintable is an opaque handle.
\<close>

type_synonym paintable = nat

record book_chapter =
  chapter_name :: string

record book =
  book_name :: string
  current_chapter :: book_chapter

text \<open>
  The properties of \<open>PlaybackControlViewModel\<close> that the controller reads. \<open>length\<close> is
  written \<open>length_vm\<close> (the name is taken by lists). \<open>book\<close> and \<open>relative_position\<close>
  may be \<open>None\<close>.
\<close>

record view_model =
  book :: "book option"
  playing :: bool
  length_vm :: real
  relative_position :: "real option"
  lock_ui :: bool
  volume :: real

text \<open>
  \<open>bool(book)\<close>: \<open>None\<close> is falsy; a \<open>Book\<close> instance is an ordinary object and is
  truthy, as every Python object is whose class defines neither \<open>__bool__\<close> nor
  \<open>__len__\<close>.
\<close>

fun truthy_book :: "book option \<Rightarrow> bool" where
  "truthy_book None = False"
| "truthy_book (Some b) = True"

text \<open>The six bound methods handed to \<open>bind_to\<close>, and the thirteen event handlers.\<close>

datatype callback =
    On_book_changed
  | On_play_changed
  | On_length_changed
  | On_position_changed
  | On_lock_ui_changed
  | On_volume_changed

datatype handler =
    Play_clicked
  | Rewind_clicked
  | Forward_clicked
  | Cover_clicked
  | On_volume_button_changed
  | On_seek_bar_position_changed
  | Volume_up
  | Volume_down
  | Speed_up
  | Speed_down
  | Speed_reset
  | Next_chapter
  | Prev_chapter

text \<open>
  A call on an injected view model: which object, the attribute name, the arguments.
  \<open>Call\<close> is a method call \<open>obj.name(args)\<close>, \<open>Set_attr\<close> an assignment
  \<open>obj.name = value\<close>.
\<close>

datatype target = Playback_control | Playback_speed

datatype py_arg = Str string | Num real | Fn callback

datatype vm_call =
    Call target string "py_arg list"
  | Set_attr target string py_arg

text \<open>Signal sources, and what a signal is connected to.\<close>

datatype emitter =
    Play_button
  | Prev_button
  | Next_button
  | Volume_button
  | Seek_bar
  | Cover_click_gesture
  | Timer_button

datatype slot = Own handler | Sleep_timer_present

record label =
  label_visible :: bool
  label_text :: string
  label_tooltip_text :: string

datatype image_source = No_source | From_paintable paintable | From_icon_name string

record image =
  image_visible :: bool
  image_source :: image_source
  pixel_size :: int
  cursor_name :: "string option"
  controllers :: "emitter list"

text \<open>
  \<open>SeekBar\<close> (\<open>cozy.ui.widgets.seek_bar\<close>) is not part of this file; the three
  attributes the controller assigns are plain fields here.
\<close>

record seek_bar =
  sb_visible :: bool
  sb_position :: real
  sb_length :: real

record world =
  title_label :: label
  subtitle_label :: label
  cover_img :: image
  seek_bar :: seek_bar
  play_button_icon_name :: string
  volume_button_value :: real
  volume_button_icons :: "string list"
  container_bar_reveal_child :: bool
  scale_factor :: int
  connections :: "(emitter \<times> string \<times> slot) list"
  actions :: "(string \<times> handler \<times> string list) list"
  vm_calls :: "vm_call list"

text \<open>\<open>ArtworkCache.get_cover_paintable(book, scale, size)\<close>: a paintable or \<open>None\<close>.\<close>

type_synonym artwork_cache = "book \<Rightarrow> int \<Rightarrow> int \<Rightarrow> paintable option"

definition COVER_SIZE :: int where
  "COVER_SIZE = 46"

section \<open>The change handlers (lines 97 to 163)\<close>

definition set_cover_image :: "artwork_cache \<Rightarrow> book \<Rightarrow> world \<Rightarrow> world" where
  "set_cover_image cache b s =
     (case cache b (scale_factor s) COVER_SIZE of
        Some p \<Rightarrow> s\<lparr>cover_img := (cover_img s)\<lparr>image_source := From_paintable p\<rparr>\<rparr>
      | None \<Rightarrow>
          s\<lparr>cover_img := (cover_img s)
              \<lparr>image_source := From_icon_name ''book-open-variant-symbolic'',
               pixel_size := COVER_SIZE\<rparr>\<rparr>)"

definition show_media_information :: "bool \<Rightarrow> world \<Rightarrow> world" where
  "show_media_information visibility s =
     s\<lparr>title_label := (title_label s)\<lparr>label_visible := visibility\<rparr>,
       subtitle_label := (subtitle_label s)\<lparr>label_visible := visibility\<rparr>,
       cover_img := (cover_img s)\<lparr>image_visible := visibility\<rparr>,
       seek_bar := (seek_bar s)\<lparr>sb_visible := visibility\<rparr>\<rparr>"

definition set_book :: "artwork_cache \<Rightarrow> book option \<Rightarrow> world \<Rightarrow> world" where
  "set_book cache bo s =
     (case bo of
        None \<Rightarrow> s
      | Some b \<Rightarrow>
          (let s = set_cover_image cache b s;
               s = s\<lparr>title_label := (title_label s)\<lparr>label_text := book_name b\<rparr>\<rparr>;
               s = s\<lparr>title_label := (title_label s)\<lparr>label_tooltip_text := book_name b\<rparr>\<rparr>;
               s = s\<lparr>subtitle_label := (subtitle_label s)
                      \<lparr>label_text := chapter_name (current_chapter b)\<rparr>\<rparr>;
               s = s\<lparr>subtitle_label := (subtitle_label s)
                      \<lparr>label_tooltip_text := chapter_name (current_chapter b)\<rparr>\<rparr>
           in s))"

definition on_book_changed :: "artwork_cache \<Rightarrow> view_model \<Rightarrow> world \<Rightarrow> world" where
  "on_book_changed cache vm s =
     (let b = book vm;
          s = set_book cache b s
      in show_media_information (truthy_book b) s)"

definition on_play_changed :: "view_model \<Rightarrow> world \<Rightarrow> world" where
  "on_play_changed vm s =
     (if playing vm then s\<lparr>play_button_icon_name := ''media-playback-pause-symbolic''\<rparr>
      else s\<lparr>play_button_icon_name := ''media-playback-start-symbolic''\<rparr>)"

definition on_position_changed :: "view_model \<Rightarrow> world \<Rightarrow> world" where
  "on_position_changed vm s =
     (let position = relative_position vm
      in case position of
           None \<Rightarrow> s
         | Some p \<Rightarrow> s\<lparr>seek_bar := (seek_bar s)\<lparr>sb_position := p\<rparr>\<rparr>)"

text \<open>\<open>if length:\<close> on a number is \<open>length != 0\<close>.\<close>

definition on_length_changed :: "view_model \<Rightarrow> world \<Rightarrow> world" where
  "on_length_changed vm s =
     (let l = length_vm vm
      in if l \<noteq> 0 then s\<lparr>seek_bar := (seek_bar s)\<lparr>sb_length := l\<rparr>\<rparr> else s)"

definition on_lock_ui_changed :: "view_model \<Rightarrow> world \<Rightarrow> world" where
  "on_lock_ui_changed vm s =
     (let sensitive = \<not> lock_ui vm
      in s\<lparr>container_bar_reveal_child := sensitive\<rparr>)"

definition on_volume_changed :: "view_model \<Rightarrow> world \<Rightarrow> world" where
  "on_volume_changed vm s = s\<lparr>volume_button_value := volume vm\<rparr>"

text \<open>
  Calling a bound method: the callbacks take no argument but \<open>self\<close>, and read the view
  model through \<open>self._playback_control_view_model\<close> when they run.
\<close>

fun call_callback :: "artwork_cache \<Rightarrow> callback \<Rightarrow> view_model \<Rightarrow> world \<Rightarrow> world" where
  "call_callback cache On_book_changed vm s = on_book_changed cache vm s"
| "call_callback cache On_play_changed vm s = on_play_changed vm s"
| "call_callback cache On_length_changed vm s = on_length_changed vm s"
| "call_callback cache On_position_changed vm s = on_position_changed vm s"
| "call_callback cache On_lock_ui_changed vm s = on_lock_ui_changed vm s"
| "call_callback cache On_volume_changed vm s = on_volume_changed vm s"

section \<open>The event handlers (lines 165 to 202)\<close>

definition call_view_model :: "vm_call \<Rightarrow> world \<Rightarrow> world" where
  "call_view_model c s = s\<lparr>vm_calls := vm_calls s @ [c]\<rparr>"

definition volume_up :: "world \<Rightarrow> world" where
  "volume_up s = call_view_model (Call Playback_control ''volume_up'' []) s"

definition volume_down :: "world \<Rightarrow> world" where
  "volume_down s = call_view_model (Call Playback_control ''volume_down'' []) s"

definition speed_up :: "world \<Rightarrow> world" where
  "speed_up s = call_view_model (Call Playback_speed ''speed_up'' []) s"

definition speed_down :: "world \<Rightarrow> world" where
  "speed_down s = call_view_model (Call Playback_speed ''speed_down'' []) s"

definition speed_reset :: "world \<Rightarrow> world" where
  "speed_reset s = call_view_model (Call Playback_speed ''speed_reset'' []) s"

definition next_chapter :: "world \<Rightarrow> world" where
  "next_chapter s = call_view_model (Call Playback_control ''next_chapter'' []) s"

definition prev_chapter :: "world \<Rightarrow> world" where
  "prev_chapter s = call_view_model (Call Playback_control ''previous_chapter'' []) s"

definition play_clicked :: "world \<Rightarrow> world" where
  "play_clicked s = call_view_model (Call Playback_control ''play_pause'' []) s"

definition rewind_clicked :: "world \<Rightarrow> world" where
  "rewind_clicked s = call_view_model (Call Playback_control ''rewind'' []) s"

definition forward_clicked :: "world \<Rightarrow> world" where
  "forward_clicked s = call_view_model (Call Playback_control ''forward'' []) s"

definition cover_clicked :: "world \<Rightarrow> world" where
  "cover_clicked s = call_view_model (Call Playback_control ''open_book_detail'' []) s"

definition on_volume_button_changed :: "real \<Rightarrow> world \<Rightarrow> world" where
  "on_volume_button_changed v s = call_view_model (Set_attr Playback_control ''volume'' (Num v)) s"

definition on_seek_bar_position_changed :: "real \<Rightarrow> world \<Rightarrow> world" where
  "on_seek_bar_position_changed p s =
     call_view_model (Set_attr Playback_control ''relative_position'' (Num p)) s"

text \<open>
  Running a handler on an event. \<open>x\<close> is the number the signal carries (the second
  argument of \<open>value-changed\<close> and \<open>position-changed\<close>); the handlers declared with
  \<open>*_\<close> ignore every argument.
\<close>

fun handle :: "handler \<Rightarrow> real \<Rightarrow> world \<Rightarrow> world" where
  "handle Play_clicked x s = play_clicked s"
| "handle Rewind_clicked x s = rewind_clicked s"
| "handle Forward_clicked x s = forward_clicked s"
| "handle Cover_clicked x s = cover_clicked s"
| "handle On_volume_button_changed x s = on_volume_button_changed x s"
| "handle On_seek_bar_position_changed x s = on_seek_bar_position_changed x s"
| "handle Volume_up x s = volume_up s"
| "handle Volume_down x s = volume_down s"
| "handle Speed_up x s = speed_up s"
| "handle Speed_down x s = speed_down s"
| "handle Speed_reset x s = speed_reset s"
| "handle Next_chapter x s = next_chapter s"
| "handle Prev_chapter x s = prev_chapter s"

section \<open>Wiring (lines 39 to 121)\<close>

definition bind_to :: "string \<Rightarrow> callback \<Rightarrow> world \<Rightarrow> world" where
  "bind_to prop cb s = call_view_model (Call Playback_control ''bind_to'' [Str prop, Fn cb]) s"

definition connect_view_model :: "world \<Rightarrow> world" where
  "connect_view_model s =
     (let s = bind_to ''book'' On_book_changed s;
          s = bind_to ''playing'' On_play_changed s;
          s = bind_to ''length'' On_length_changed s;
          s = bind_to ''position'' On_position_changed s;
          s = bind_to ''lock_ui'' On_lock_ui_changed s;
          s = bind_to ''volume'' On_volume_changed s
      in s)"

definition connect :: "emitter \<Rightarrow> string \<Rightarrow> slot \<Rightarrow> world \<Rightarrow> world" where
  "connect e signal sl s = s\<lparr>connections := connections s @ [(e, signal, sl)]\<rparr>"

definition connect_widgets :: "world \<Rightarrow> world" where
  "connect_widgets s =
     (let s = connect Play_button ''clicked'' (Own Play_clicked) s;
          s = connect Volume_button ''value-changed'' (Own On_volume_button_changed) s;
          s = connect Seek_bar ''position-changed'' (Own On_seek_bar_position_changed) s;
          s = connect Prev_button ''clicked'' (Own Rewind_clicked) s;
          s = connect Next_button ''clicked'' (Own Forward_clicked) s;
          s = connect Seek_bar ''rewind'' (Own Rewind_clicked) s;
          s = connect Seek_bar ''forward'' (Own Forward_clicked) s;
          s = connect Cover_click_gesture ''pressed'' (Own Cover_clicked) s;
          s = s\<lparr>cover_img := (cover_img s)
                 \<lparr>controllers := controllers (cover_img s) @ [Cover_click_gesture]\<rparr>\<rparr>;
          s = s\<lparr>cover_img := (cover_img s)\<lparr>cursor_name := Some ''pointer''\<rparr>\<rparr>
      in s)"

definition create_action :: "string \<Rightarrow> handler \<Rightarrow> string list \<Rightarrow> world \<Rightarrow> world" where
  "create_action a h accels s = s\<lparr>actions := actions s @ [(a, h, accels)]\<rparr>"

definition setup_shortcuts :: "world \<Rightarrow> world" where
  "setup_shortcuts s =
     (let s = create_action ''play_pause'' Play_clicked [''space''] s;
          s = create_action ''seek_rewind'' Rewind_clicked [''Left''] s;
          s = create_action ''seek_forward'' Forward_clicked [''Right''] s;
          s = create_action ''volume_up'' Volume_up [''Up''] s;
          s = create_action ''volume_down'' Volume_down [''Down''] s;
          s = create_action ''speed_up'' Speed_up [''plus'', ''KP_Add'', ''<primary>Up''] s;
          s = create_action ''speed_down'' Speed_down
                [''minus'', ''KP_Subtract'', ''<primary>Down''] s;
          s = create_action ''speed_reset'' Speed_reset [''equal''] s;
          s = create_action ''prev_chapter'' Prev_chapter [''Page_Down'', ''<primary>Left''] s;
          s = create_action ''next_chapter'' Next_chapter [''Page_Up'', ''<primary>Right''] s
      in s)"

text \<open>
  A direct call of a change handler, with a trace of the handlers called so far. The
  trace is not state of the program; it is what "called once" is stated about.
\<close>

definition invoke ::
  "('cb \<Rightarrow> 'st \<Rightarrow> 'w \<Rightarrow> 'w) \<Rightarrow> 'cb \<Rightarrow> 'st \<Rightarrow> 'cb list \<times> 'w \<Rightarrow> 'cb list \<times> 'w" where
  "invoke run cb st t = (fst t @ [cb], run cb st (snd t))"

text \<open>
  \<open>__init__\<close>. \<open>s0\<close> holds the widgets as the template and the \<open>SeekBar\<close> constructor
  leave them; \<open>vm\<close> is the injected view model as the handlers find it. The lines that
  only place widgets in the widget tree (\<open>set_child\<close>, \<open>append\<close>, \<open>set_popover\<close>, the
  \<open>SleepTimer\<close>) assign nothing that a handler reads or writes and are left in \<open>s0\<close>.
\<close>

definition init :: "artwork_cache \<Rightarrow> view_model \<Rightarrow> world \<Rightarrow> callback list \<times> world" where
  "init cache vm s0 =
     (let s = connect Timer_button ''clicked'' Sleep_timer_present s0;
          s = s\<lparr>volume_button_icons :=
                  [''audio-volume-muted-symbolic'', ''audio-volume-high-symbolic'',
                   ''audio-volume-low-symbolic'', ''audio-volume-medium-symbolic'']\<rparr>;
          s = connect_view_model s;
          s = connect_widgets s;
          t = invoke (call_callback cache) On_book_changed vm ([], s);
          t = invoke (call_callback cache) On_lock_ui_changed vm t;
          t = invoke (call_callback cache) On_length_changed vm t;
          t = invoke (call_callback cache) On_position_changed vm t;
          t = invoke (call_callback cache) On_volume_changed vm t
      in (fst t, setup_shortcuts (snd t)))"

section \<open>What an operation is observed by\<close>

text \<open>
  The operations that run after construction: a widget signal or a keyboard action
  runs an event handler with the number it carries; the view model runs a bound
  callback, which finds the view model as it is then.
\<close>

datatype operation = Event handler real | Changed callback view_model

fun step :: "artwork_cache \<Rightarrow> operation \<Rightarrow> world \<Rightarrow> world" where
  "step cache (Event h x) s = handle h x s"
| "step cache (Changed cb vm) s = call_callback cache cb vm s"

text \<open>The calls made on the view models between a state and a later one.\<close>

definition new_calls :: "world \<Rightarrow> world \<Rightarrow> vm_call list" where
  "new_calls s s' = drop (length (vm_calls s)) (vm_calls s')"

fun call_name :: "vm_call \<Rightarrow> string" where
  "call_name (Call t m args) = m"
| "call_name (Set_attr t m v) = m"

text \<open>The registration a call makes, if it is \<open>bind_to(name, callback)\<close>.\<close>

definition binding_of :: "vm_call \<Rightarrow> (string \<times> callback) option" where
  "binding_of c =
     (case c of
        Call t m [Str p, Fn cb] \<Rightarrow> if m = ''bind_to'' then Some (p, cb) else None
      | _ \<Rightarrow> None)"

definition bindings_of :: "vm_call list \<Rightarrow> (string \<times> callback) list" where
  "bindings_of cs = List.map_filter binding_of cs"

text \<open>The handlers a world has connected to signals and registered as actions.\<close>

fun slot_handler :: "emitter \<times> string \<times> slot \<Rightarrow> handler option" where
  "slot_handler (e, signal, Own h) = Some h"
| "slot_handler (e, signal, Sleep_timer_present) = None"

definition registered_handlers :: "world \<Rightarrow> handler list" where
  "registered_handlers s =
     List.map_filter slot_handler (connections s) @ map (\<lambda>(a, h, accels). h) (actions s)"

text \<open>
  The view-model methods and property setters an event may be forwarded to; \<open>x\<close> is
  the number the event carries.
\<close>

definition forward_targets :: "real \<Rightarrow> vm_call list" where
  "forward_targets x =
     [Call Playback_control ''play_pause'' [],
      Call Playback_control ''rewind'' [],
      Call Playback_control ''forward'' [],
      Set_attr Playback_control ''volume'' (Num x),
      Set_attr Playback_control ''relative_position'' (Num x),
      Call Playback_control ''open_book_detail'' [],
      Call Playback_control ''volume_up'' [],
      Call Playback_control ''volume_down'' [],
      Call Playback_speed ''speed_up'' [],
      Call Playback_speed ''speed_down'' [],
      Call Playback_speed ''speed_reset'' [],
      Call Playback_control ''next_chapter'' [],
      Call Playback_control ''previous_chapter'' []]"

text \<open>Their attribute names.\<close>

definition forwarded_names :: "string list" where
  "forwarded_names = [''play_pause'', ''rewind'', ''forward'', ''volume'', ''relative_position'',
      ''open_book_detail'', ''volume_up'', ''volume_down'', ''speed_up'', ''speed_down'',
      ''speed_reset'', ''next_chapter'', ''previous_chapter'']"

section \<open>The property binder\<close>

text \<open>
  Modelled from the spec: the class of the view model, which defines \<open>bind_to\<close> and
  runs the bound callbacks, is not in \<open>media_controller.py\<close>. The Subject of section 3
  holds its current property values (\<open>state\<close>, of any type: the binder never looks
  inside), the property names it defines (\<open>declared\<close>) and the binding registry, which
  "maps property name to ordered sequence of callback handles".
\<close>

record ('st, 'cb) subject =
  state :: 'st
  declared :: "string list"
  registry :: "string \<rightharpoonup> 'cb list"

text \<open>
  Modelled from the spec: the error of \<open>bind_to\<close>, whose class is not in
  \<open>media_controller.py\<close>. Section 7: "raised by bind when the named property does not
  exist on the Subject"; it carries the name that was asked for.
\<close>

datatype binder_error = UnknownPropertyError string

text \<open>
  Modelled from the spec: the lookup in the registry of the view model's class, which is
  not in \<open>media_controller.py\<close>: the callbacks registered against a name, in order,
  none for a name never bound.
\<close>

definition callbacks_for :: "('st, 'cb) subject \<Rightarrow> string \<Rightarrow> 'cb list" where
  "callbacks_for subj P = (case registry subj P of None \<Rightarrow> [] | Some cbs \<Rightarrow> cbs)"

text \<open>
  Modelled from the spec: the view model's \<open>bind_to\<close>, which is not in
  \<open>media_controller.py\<close>, as \<open>bind(property_name, callback)\<close> of section 4.1. It
  "registers callback to be invoked whenever property_name changes"; insertion order is
  notification order and nothing is deduplicated. With strict validation it "fails with
  UnknownPropertyError if the Subject does not define property_name"; otherwise it is
  permissive. The result is the error raised, if any, and the Subject afterwards.
\<close>

definition bind ::
  "bool \<Rightarrow> string \<Rightarrow> 'cb \<Rightarrow> ('st, 'cb) subject \<Rightarrow> binder_error option \<times> ('st, 'cb) subject" where
  "bind strict P cb subj =
     (if strict \<and> P \<notin> set (declared subj) then (Some (UnknownPropertyError P), subj)
      else (None, subj\<lparr>registry := (registry subj)(P \<mapsto> callbacks_for subj P @ [cb])\<rparr>))"

text \<open>
  Modelled from the spec: the loop of \<open>notify\<close> (not in \<open>media_controller.py\<close>)
  over the callbacks bound to a name, first registered first. A callback is "a
  zero-argument side-effecting function": it is handed no value, and \<open>run\<close> lets it
  read the Subject's state \<open>st\<close> as it is when \<open>notify\<close> runs and change the
  observers' world. It does not assign the Subject: the controller's callbacks assign
  widgets only.
\<close>

fun invoke_all ::
  "('cb \<Rightarrow> 'st \<Rightarrow> 'w \<Rightarrow> 'w) \<Rightarrow> 'cb list \<Rightarrow> 'st \<Rightarrow> 'cb list \<times> 'w \<Rightarrow> 'cb list \<times> 'w" where
  "invoke_all run [] st t = t"
| "invoke_all run (cb # cbs) st t = invoke_all run cbs st (invoke run cb st t)"

text \<open>
  Modelled from the spec: the notification of the view model's class, which is not in
  \<open>media_controller.py\<close>. \<open>notify(property_name)\<close> of section 4.1 "synchronously
  invokes, in registration order, every callback bound to that name". The result is the
  trace of the callbacks invoked and the observers' world afterwards.
\<close>

definition notify ::
  "('cb \<Rightarrow> 'st \<Rightarrow> 'w \<Rightarrow> 'w) \<Rightarrow> string \<Rightarrow> ('st, 'cb) subject \<Rightarrow> 'w \<Rightarrow> 'cb list \<times> 'w" where
  "notify run P subj w = invoke_all run (callbacks_for subj P) (state subj) ([], w)"

text \<open>
  Modelled from the spec: a mutation of a property by the Subject, whose setters are not
  in \<open>media_controller.py\<close>. \<open>notify\<close> is "invoked by the Subject itself (or its
  setter logic) whenever it assigns a new value to property_name": the Subject first
  assigns, then notifies.
\<close>

definition set_property ::
  "('cb \<Rightarrow> 'st \<Rightarrow> 'w \<Rightarrow> 'w) \<Rightarrow> string \<Rightarrow> ('st \<Rightarrow> 'st) \<Rightarrow> ('st, 'cb) subject \<Rightarrow> 'w
    \<Rightarrow> ('st, 'cb) subject \<times> 'cb list \<times> 'w" where
  "set_property run P assign subj w =
     (let subj = subj\<lparr>state := assign (state subj)\<rparr>
      in (subj, notify run P subj w))"

text \<open>
  Modelled from the spec: a sequence of registrations, each made by the permissive
  \<open>bind\<close> (\<open>bind_to\<close> itself is not in \<open>media_controller.py\<close>), in order.
\<close>

definition bind_all ::
  "(string \<times> 'cb) list \<Rightarrow> ('st, 'cb) subject \<Rightarrow> ('st, 'cb) subject" where
  "bind_all bs subj = fold (\<lambda>(P, cb) subj. snd (bind False P cb subj)) bs subj"

text \<open>
  Modelled from the spec: the Subject that the controller observes, taking the view
  model's \<open>bind_to\<close> (not in \<open>media_controller.py\<close>) to be the permissive \<open>bind\<close>.
  Its state is the view model, it defines the six names the controller binds, and its
  registry is what the \<open>bind_to\<close> calls among \<open>cs\<close> build from an empty one.
\<close>

definition observed_subject :: "view_model \<Rightarrow> vm_call list \<Rightarrow> (view_model, callback) subject" where
  "observed_subject vm cs =
     bind_all (bindings_of cs)
       \<lparr>state = vm,
        declared = [''book'', ''playing'', ''length'', ''position'', ''lock_ui'', ''volume''],
        registry = Map.empty\<rparr>"

section \<open>Example inputs\<close>

definition example_world :: world where
  "example_world =
     \<lparr>title_label = \<lparr>label_visible = True, label_text = ''Old title'',
                      label_tooltip_text = ''Old title''\<rparr>,
      subtitle_label = \<lparr>label_visible = True, label_text = ''Old chapter'',
                         label_tooltip_text = ''Old chapter''\<rparr>,
      cover_img = \<lparr>image_visible = True, image_source = From_paintable 7, pixel_size = 0,
                    cursor_name = None, controllers = []\<rparr>,
      seek_bar = \<lparr>sb_visible = True, sb_position = 10, sb_length = 100\<rparr>,
      play_button_icon_name = ''media-playback-start-symbolic'',
      volume_button_value = 1,
      volume_button_icons = [],
      container_bar_reveal_child = False,
      scale_factor = 1,
      connections = [],
      actions = [],
      vm_calls = []\<rparr>"

definition example_book :: book where
  "example_book = \<lparr>book_name = ''Dracula'', current_chapter = \<lparr>chapter_name = ''Chapter 1''\<rparr>\<rparr>"

definition example_vm :: view_model where
  "example_vm =
     \<lparr>book = Some example_book, playing = True, length_vm = 3600,
      relative_position = Some 42, lock_ui = False, volume = 1 / 2\<rparr>"

definition idle_vm :: view_model where
  "idle_vm =
     \<lparr>book = None, playing = False, length_vm = 0,
      relative_position = None, lock_ui = False, volume = 1 / 2\<rparr>"

definition no_artwork :: artwork_cache where
  "no_artwork b scale px = None"

section \<open>Calls made on the view models\<close>

lemma vm_calls_call_view_model: "vm_calls (call_view_model c s) = vm_calls s @ [c]"
  by (simp add: call_view_model_def)

lemma new_calls_append: "vm_calls s' = vm_calls s @ cs \<Longrightarrow> new_calls s s' = cs"
  by (simp add: new_calls_def)

lemma bindings_of_append: "bindings_of (xs @ ys) = bindings_of xs @ bindings_of ys"
  by (simp add: bindings_of_def List.map_filter_def)

lemma bindings_of_Nil: "bindings_of [] = []"
  by (simp add: bindings_of_def List.map_filter_def)

lemma bindings_of_Cons:
  "bindings_of (c # cs) = (case binding_of c of None \<Rightarrow> bindings_of cs | Some b \<Rightarrow> b # bindings_of cs)"
  by (simp add: bindings_of_def List.map_filter_def split: option.splits)

lemma binding_of_bind_to:
  "binding_of (Call t ''bind_to'' [Str p, Fn cb]) = Some (p, cb)"
  by (simp add: binding_of_def)

lemma connect_view_model_calls:
  "connect_view_model s =
     s\<lparr>vm_calls := vm_calls s @
        [Call Playback_control ''bind_to'' [Str ''book'', Fn On_book_changed],
         Call Playback_control ''bind_to'' [Str ''playing'', Fn On_play_changed],
         Call Playback_control ''bind_to'' [Str ''length'', Fn On_length_changed],
         Call Playback_control ''bind_to'' [Str ''position'', Fn On_position_changed],
         Call Playback_control ''bind_to'' [Str ''lock_ui'', Fn On_lock_ui_changed],
         Call Playback_control ''bind_to'' [Str ''volume'', Fn On_volume_changed]]\<rparr>"
  by (simp add: connect_view_model_def bind_to_def call_view_model_def)

lemma new_calls_connect_view_model:
  "new_calls s (connect_view_model s) =
        [Call Playback_control ''bind_to'' [Str ''book'', Fn On_book_changed],
         Call Playback_control ''bind_to'' [Str ''playing'', Fn On_play_changed],
         Call Playback_control ''bind_to'' [Str ''length'', Fn On_length_changed],
         Call Playback_control ''bind_to'' [Str ''position'', Fn On_position_changed],
         Call Playback_control ''bind_to'' [Str ''lock_ui'', Fn On_lock_ui_changed],
         Call Playback_control ''bind_to'' [Str ''volume'', Fn On_volume_changed]]"
  by (rule new_calls_append) (simp add: connect_view_model_calls)

lemma bindings_connect_view_model:
  "bindings_of (new_calls s (connect_view_model s)) =
      [(''book'', On_book_changed), (''playing'', On_play_changed),
       (''length'', On_length_changed), (''position'', On_position_changed),
       (''lock_ui'', On_lock_ui_changed), (''volume'', On_volume_changed)]"
  by (simp add: new_calls_connect_view_model bindings_of_Cons bindings_of_Nil binding_of_bind_to)

text \<open>
  C3: \<open>_connect_view_model\<close> makes six calls on the view model, all of them
  \<open>bind_to\<close>, one for each of the names "book", "playing", "length", "position",
  "lock_ui" and "volume": every one of these names is bound exactly once, and no other
  name is bound.
\<close>

theorem connect_view_model_binds_six_names_once:
  "connect_view_model s = s\<lparr>vm_calls := vm_calls s @ new_calls s (connect_view_model s)\<rparr> \<and>
   length (new_calls s (connect_view_model s)) = 6 \<and>
   map call_name (new_calls s (connect_view_model s)) = replicate 6 ''bind_to'' \<and>
   map fst (bindings_of (new_calls s (connect_view_model s))) =
     [''book'', ''playing'', ''length'', ''position'', ''lock_ui'', ''volume''] \<and>
   distinct (map fst (bindings_of (new_calls s (connect_view_model s)))) \<and>
   (\<forall>P. count_list (map fst (bindings_of (new_calls s (connect_view_model s)))) P =
      (if P \<in> {''book'', ''playing'', ''length'', ''position'', ''lock_ui'', ''volume''}
       then 1 else 0))"
proof -
  have "connect_view_model s = s\<lparr>vm_calls := vm_calls s @ new_calls s (connect_view_model s)\<rparr>"
    unfolding new_calls_connect_view_model by (rule connect_view_model_calls)
  moreover have "length (new_calls s (connect_view_model s)) = 6"
    by (simp add: new_calls_connect_view_model)
  moreover have "map call_name (new_calls s (connect_view_model s)) = replicate 6 ''bind_to''"
    by (simp add: new_calls_connect_view_model numeral_eq_Suc)
  moreover have names: "map fst (bindings_of (new_calls s (connect_view_model s))) =
     [''book'', ''playing'', ''length'', ''position'', ''lock_ui'', ''volume'']"
    by (simp add: bindings_connect_view_model)
  moreover have "distinct (map fst (bindings_of (new_calls s (connect_view_model s))))"
    unfolding names by simp
  moreover have "\<forall>P. count_list (map fst (bindings_of (new_calls s (connect_view_model s)))) P =
      (if P \<in> {''book'', ''playing'', ''length'', ''position'', ''lock_ui'', ''volume''}
       then 1 else 0)"
    unfolding names by auto
  ultimately show ?thesis by blast
qed

lemma handle_is_one_vm_call:
  "\<exists>c \<in> set (forward_targets x). handle h x s = call_view_model c s"
  by (cases h)
     (simp_all add: forward_targets_def play_clicked_def rewind_clicked_def
        forward_clicked_def cover_clicked_def on_volume_button_changed_def
        on_seek_bar_position_changed_def volume_up_def volume_down_def speed_up_def
        speed_down_def speed_reset_def next_chapter_def prev_chapter_def)

lemma handle_forwards:
  "\<exists>c. c \<in> set (forward_targets x) \<and> handle h x s = s\<lparr>vm_calls := vm_calls s @ [c]\<rparr>"
  using handle_is_one_vm_call [of x h s] by (auto simp: call_view_model_def)

lemma connections_connect_widgets:
  "connections (connect_widgets s) = connections s @
     [(Play_button, ''clicked'', Own Play_clicked),
      (Volume_button, ''value-changed'', Own On_volume_button_changed),
      (Seek_bar, ''position-changed'', Own On_seek_bar_position_changed),
      (Prev_button, ''clicked'', Own Rewind_clicked),
      (Next_button, ''clicked'', Own Forward_clicked),
      (Seek_bar, ''rewind'', Own Rewind_clicked),
      (Seek_bar, ''forward'', Own Forward_clicked),
      (Cover_click_gesture, ''pressed'', Own Cover_clicked)]"
  by (simp add: connect_widgets_def connect_def)

lemma actions_setup_shortcuts:
  "map (\<lambda>(a, h, accels). h) (actions (setup_shortcuts s)) =
     map (\<lambda>(a, h, accels). h) (actions s) @
     [Play_clicked, Rewind_clicked, Forward_clicked, Volume_up, Volume_down,
      Speed_up, Speed_down, Speed_reset, Prev_chapter, Next_chapter]"
  by (simp add: setup_shortcuts_def create_action_def)

lemma connections_setup_shortcuts: "connections (setup_shortcuts s) = connections s"
  by (simp add: setup_shortcuts_def create_action_def)

lemma all_handlers_registered:
  "h \<in> set (registered_handlers (setup_shortcuts (connect_widgets s)))"
  by (cases h)
     (simp_all add: registered_handlers_def actions_setup_shortcuts
        connections_setup_shortcuts connections_connect_widgets List.map_filter_def)

lemma handlers_paired_with_targets:
  "map (\<lambda>k. new_calls s (handle k x s))
     [Play_clicked, Rewind_clicked, Forward_clicked, On_volume_button_changed,
      On_seek_bar_position_changed, Cover_clicked, Volume_up, Volume_down, Speed_up,
      Speed_down, Speed_reset, Next_chapter, Prev_chapter] =
   map (\<lambda>c. [c]) (forward_targets x)"
  by (simp add: forward_targets_def call_view_model_def play_clicked_def rewind_clicked_def
        forward_clicked_def cover_clicked_def on_volume_button_changed_def
        on_seek_bar_position_changed_def volume_up_def volume_down_def speed_up_def
        speed_down_def speed_reset_def next_chapter_def prev_chapter_def new_calls_def)

text \<open>
  C2: every event handler, run on any event in any state, makes exactly one call on a
  view model, which is one of the methods and property setters of \<open>forward_targets\<close>,
  and changes nothing else: no widget attribute and nothing the controller keeps. Every
  handler is one that \<open>_connect_widgets\<close> connects to a signal or \<open>_setup_shortcuts\<close>
  registers as a keyboard action. Handler by handler, the one call made is the entry of
  \<open>forward_targets\<close> at the same place in the list.
\<close>

theorem event_handlers_forward_one_call:
  "(\<exists>c. c \<in> set (forward_targets x) \<and> handle h x s = s\<lparr>vm_calls := vm_calls s @ [c]\<rparr>) \<and>
   h \<in> set (registered_handlers (setup_shortcuts (connect_widgets s0))) \<and>
   map (\<lambda>k. new_calls s (handle k x s))
     [Play_clicked, Rewind_clicked, Forward_clicked, On_volume_button_changed,
      On_seek_bar_position_changed, Cover_clicked, Volume_up, Volume_down, Speed_up,
      Speed_down, Speed_reset, Next_chapter, Prev_chapter] =
   map (\<lambda>c. [c]) (forward_targets x)"
  using handle_forwards [of x h s] all_handlers_registered [of h s0]
    handlers_paired_with_targets [of s x]
  by blast

section \<open>Construction and the operations after it\<close>

lemma vm_calls_call_callback: "vm_calls (call_callback cache cb vm s) = vm_calls s"
  by (cases cb)
     (simp_all add: on_book_changed_def set_book_def set_cover_image_def
        show_media_information_def on_play_changed_def on_length_changed_def
        on_position_changed_def on_lock_ui_changed_def on_volume_changed_def Let_def
        split: option.splits)

lemma play_icon_call_callback:
  "cb \<noteq> On_play_changed \<Longrightarrow>
   play_button_icon_name (call_callback cache cb vm s) = play_button_icon_name s"
  by (cases cb)
     (simp_all add: on_book_changed_def set_book_def set_cover_image_def
        show_media_information_def on_length_changed_def
        on_position_changed_def on_lock_ui_changed_def on_volume_changed_def Let_def
        split: option.splits)

lemma forward_targets_names: "map call_name (forward_targets x) = forwarded_names"
  by (simp add: forward_targets_def forwarded_names_def)

lemma forward_targets_no_binding: "c \<in> set (forward_targets x) \<Longrightarrow> binding_of c = None"
  by (auto simp: forward_targets_def binding_of_def)

lemma step_calls:
  "\<exists>cs. vm_calls (step cache op s) = vm_calls s @ cs \<and> bindings_of cs = [] \<and>
        set (map call_name cs) \<subseteq> set forwarded_names"
proof (cases op)
  case (Event h x)
  obtain c where c: "c \<in> set (forward_targets x)" and h: "handle h x s = call_view_model c s"
    using handle_is_one_vm_call by blast
  from c have "call_name c \<in> set forwarded_names"
    unfolding forward_targets_names [of x, symmetric] by simp
  with c h Event show ?thesis
    by (intro exI [of _ "[c]"])
       (simp add: vm_calls_call_view_model bindings_of_Cons bindings_of_Nil forward_targets_no_binding)
next
  case (Changed cb vm)
  then show ?thesis
    by (intro exI [of _ "[]"]) (simp add: vm_calls_call_callback bindings_of_Nil)
qed

lemma run_calls:
  "\<exists>cs. vm_calls (fold (step cache) ops s) = vm_calls s @ cs \<and> bindings_of cs = [] \<and>
        set (map call_name cs) \<subseteq> set forwarded_names"
proof (induction ops arbitrary: s)
  case Nil
  show ?case by (intro exI [of _ "[]"]) (simp add: bindings_of_Nil)
next
  case (Cons op ops)
  obtain cs1 where 1: "vm_calls (step cache op s) = vm_calls s @ cs1" "bindings_of cs1 = []"
      "set (map call_name cs1) \<subseteq> set forwarded_names"
    using step_calls by blast
  obtain cs2 where 2: "vm_calls (fold (step cache) ops (step cache op s)) = vm_calls (step cache op s) @ cs2"
      "bindings_of cs2 = []" "set (map call_name cs2) \<subseteq> set forwarded_names"
    using Cons.IH by blast
  from 1 2 show ?case
    by (intro exI [of _ "cs1 @ cs2"]) (simp add: bindings_of_append)
qed

lemma vm_calls_connect_widgets: "vm_calls (connect_widgets s) = vm_calls s"
  by (simp add: connect_widgets_def connect_def)

lemma vm_calls_setup_shortcuts: "vm_calls (setup_shortcuts s) = vm_calls s"
  by (simp add: setup_shortcuts_def create_action_def)

lemma vm_calls_connect_view_model:
  "vm_calls (connect_view_model s) = vm_calls s @ new_calls s (connect_view_model s)"
  unfolding new_calls_connect_view_model by (simp add: connect_view_model_calls)

lemma snd_init:
  "snd (init cache vm s0) =
     setup_shortcuts
       (call_callback cache On_volume_changed vm
         (call_callback cache On_position_changed vm
           (call_callback cache On_length_changed vm
             (call_callback cache On_lock_ui_changed vm
               (call_callback cache On_book_changed vm
                 (connect_widgets
                   (connect_view_model
                     ((connect Timer_button ''clicked'' Sleep_timer_present s0)
                        \<lparr>volume_button_icons :=
                           [''audio-volume-muted-symbolic'', ''audio-volume-high-symbolic'',
                            ''audio-volume-low-symbolic'',
                            ''audio-volume-medium-symbolic'']\<rparr>))))))))"
  by (simp add: init_def invoke_def Let_def)

lemma vm_calls_init:
  "vm_calls (snd (init cache vm s0)) = vm_calls s0 @ new_calls s0 (connect_view_model s0)"
  unfolding snd_init vm_calls_setup_shortcuts vm_calls_call_callback vm_calls_connect_widgets
    vm_calls_connect_view_model
  by (simp add: connect_def new_calls_connect_view_model)

lemma play_icon_init:
  "play_button_icon_name (snd (init cache vm s0)) = play_button_icon_name s0"
  unfolding snd_init
  by (simp add: play_icon_call_callback setup_shortcuts_def create_action_def
      connect_widgets_def connect_view_model_calls connect_def del: call_callback.simps)

lemma fst_init:
  "fst (init cache vm s0) =
     [On_book_changed, On_lock_ui_changed, On_length_changed, On_position_changed,
      On_volume_changed]"
  by (simp add: init_def invoke_def Let_def)


text \<open>
  C6: the six registrations are the \<open>bind_to\<close> calls that \<open>__init__\<close> makes (through
  \<open>_connect_view_model\<close>). Whatever operations run afterwards, in any number and order,
  they make no further \<open>bind_to\<close> call, and every call the controller has made on a view
  model since construction began is \<open>bind_to\<close> or one of the thirteen forwarded methods
  and setters: none of them unbinds or tears down, so the registrations made stay the
  six.
\<close>

theorem registrations_made_at_construction_never_removed:
  "bindings_of (new_calls s0 (snd (init cache vm s0))) =
     [(''book'', On_book_changed), (''playing'', On_play_changed),
      (''length'', On_length_changed), (''position'', On_position_changed),
      (''lock_ui'', On_lock_ui_changed), (''volume'', On_volume_changed)] \<and>
   bindings_of (new_calls (snd (init cache vm s0))
      (fold (step cache) ops (snd (init cache vm s0)))) = [] \<and>
   bindings_of (new_calls s0 (fold (step cache) ops (snd (init cache vm s0)))) =
     [(''book'', On_book_changed), (''playing'', On_play_changed),
      (''length'', On_length_changed), (''position'', On_position_changed),
      (''lock_ui'', On_lock_ui_changed), (''volume'', On_volume_changed)] \<and>
   set (map call_name (new_calls s0 (fold (step cache) ops (snd (init cache vm s0)))))
     \<subseteq> set (''bind_to'' # forwarded_names)"
proof -
  let ?s1 = "snd (init cache vm s0)"
  let ?six = "new_calls s0 (connect_view_model s0)"
  obtain cs where cs: "vm_calls (fold (step cache) ops ?s1) = vm_calls ?s1 @ cs"
      "bindings_of cs = []" "set (map call_name cs) \<subseteq> set forwarded_names"
    using run_calls by blast
  have init: "new_calls s0 ?s1 = ?six"
    by (rule new_calls_append) (rule vm_calls_init)
  have later: "new_calls ?s1 (fold (step cache) ops ?s1) = cs"
    by (rule new_calls_append) (rule cs(1))
  have all: "new_calls s0 (fold (step cache) ops ?s1) = ?six @ cs"
    by (rule new_calls_append) (simp add: cs(1) vm_calls_init)
  have names: "set (map call_name ?six) \<subseteq> {''bind_to''}"
    by (simp add: new_calls_connect_view_model)
  show ?thesis
    unfolding init later all using cs(2,3) names
    by (auto simp add: bindings_of_append bindings_connect_view_model)
qed

text \<open>
  C8: \<open>__init__\<close> calls the change handlers for book, lock_ui, length, position and
  volume, in this order and once each, on the state in which the six bindings are
  already registered and the widgets connected, and registers the shortcuts last. It
  does not call \<open>_on_play_changed\<close>: the icon of the play button after construction is
  the one it had before, whatever \<open>playing\<close> is, while the volume button, the revealer
  and the visibility of the title do follow the view model. For a view model that is
  playing and a template with the start icon, the icon after construction differs from
  the one \<open>_on_play_changed\<close> would set.
\<close>

theorem init_calls_five_change_handlers_but_not_play:
  "fst (init cache vm s0) =
     [On_book_changed, On_lock_ui_changed, On_length_changed, On_position_changed,
      On_volume_changed] \<and>
   distinct (fst (init cache vm s0)) \<and>
   On_play_changed \<notin> set (fst (init cache vm s0)) \<and>
   snd (init cache vm s0) =
     setup_shortcuts
       (fold (\<lambda>cb. call_callback cache cb vm) (fst (init cache vm s0))
          (connect_widgets
             (connect_view_model
                ((connect Timer_button ''clicked'' Sleep_timer_present s0)
                   \<lparr>volume_button_icons :=
                      [''audio-volume-muted-symbolic'', ''audio-volume-high-symbolic'',
                       ''audio-volume-low-symbolic'',
                       ''audio-volume-medium-symbolic'']\<rparr>)))) \<and>
   bindings_of (new_calls s0 (snd (init cache vm s0))) =
     [(''book'', On_book_changed), (''playing'', On_play_changed),
      (''length'', On_length_changed), (''position'', On_position_changed),
      (''lock_ui'', On_lock_ui_changed), (''volume'', On_volume_changed)] \<and>
   play_button_icon_name (snd (init cache vm s0)) = play_button_icon_name s0 \<and>
   volume_button_value (snd (init cache vm s0)) = volume vm \<and>
   container_bar_reveal_child (snd (init cache vm s0)) = (\<not> lock_ui vm) \<and>
   label_visible (title_label (snd (init cache vm s0))) = (book vm \<noteq> None) \<and>
   play_button_icon_name (snd (init cache example_vm example_world)) \<noteq>
     play_button_icon_name
       (on_play_changed example_vm (snd (init cache example_vm example_world)))"
proof -
  have tr: "fst (init cache vm s0) =
     [On_book_changed, On_lock_ui_changed, On_length_changed, On_position_changed,
      On_volume_changed]"
    by (rule fst_init)
  have st: "snd (init cache vm s0) =
     setup_shortcuts
       (fold (\<lambda>cb. call_callback cache cb vm) (fst (init cache vm s0))
          (connect_widgets
             (connect_view_model
                ((connect Timer_button ''clicked'' Sleep_timer_present s0)
                   \<lparr>volume_button_icons :=
                      [''audio-volume-muted-symbolic'', ''audio-volume-high-symbolic'',
                       ''audio-volume-low-symbolic'',
                       ''audio-volume-medium-symbolic'']\<rparr>))))"
    unfolding tr by (simp add: snd_init del: call_callback.simps)
  have reg: "bindings_of (new_calls s0 (snd (init cache vm s0))) =
     [(''book'', On_book_changed), (''playing'', On_play_changed),
      (''length'', On_length_changed), (''position'', On_position_changed),
      (''lock_ui'', On_lock_ui_changed), (''volume'', On_volume_changed)]"
    using new_calls_append [OF vm_calls_init [of cache vm s0]]
    by (simp add: bindings_connect_view_model)
  have vol: "volume_button_value (snd (init cache vm s0)) = volume vm"
    unfolding snd_init by (simp add: setup_shortcuts_def create_action_def on_volume_changed_def)
  have lock: "container_bar_reveal_child (snd (init cache vm s0)) = (\<not> lock_ui vm)"
    unfolding snd_init
    by (simp add: setup_shortcuts_def create_action_def on_volume_changed_def
        on_position_changed_def on_length_changed_def on_lock_ui_changed_def Let_def
        split: option.splits)
  have vis: "label_visible (title_label (snd (init cache vm s0))) = (book vm \<noteq> None)"
    unfolding snd_init
    by (cases "book vm")
       (simp_all add: setup_shortcuts_def create_action_def on_volume_changed_def
        on_position_changed_def on_length_changed_def on_lock_ui_changed_def
        on_book_changed_def show_media_information_def Let_def
        split: option.splits)
  have ex: "play_button_icon_name (snd (init cache example_vm example_world)) \<noteq>
     play_button_icon_name
       (on_play_changed example_vm (snd (init cache example_vm example_world)))"
    by (simp add: play_icon_init on_play_changed_def example_vm_def example_world_def)
  from tr st reg vol lock vis ex play_icon_init [of cache vm s0] show ?thesis
    by simp
qed

section \<open>The change handlers\<close>

text \<open>
  C9: when the view model's book is \<open>None\<close>, \<open>_on_book_changed\<close> makes the title
  label, the subtitle label, the cover image and the seek bar invisible and leaves the
  labels' text and tooltips and the cover image's content as they were; when the book is
  not \<open>None\<close>, it makes all four visible and sets title and subtitle (text and tooltip)
  to the book's name and the name of its current chapter.
\<close>

theorem on_book_changed_visibility:
  "(book vm = None \<longrightarrow>
      \<not> label_visible (title_label (on_book_changed cache vm s)) \<and>
      \<not> label_visible (subtitle_label (on_book_changed cache vm s)) \<and>
      \<not> image_visible (cover_img (on_book_changed cache vm s)) \<and>
      \<not> sb_visible (seek_bar (on_book_changed cache vm s)) \<and>
      label_text (title_label (on_book_changed cache vm s)) = label_text (title_label s) \<and>
      label_tooltip_text (title_label (on_book_changed cache vm s)) =
        label_tooltip_text (title_label s) \<and>
      label_text (subtitle_label (on_book_changed cache vm s)) =
        label_text (subtitle_label s) \<and>
      label_tooltip_text (subtitle_label (on_book_changed cache vm s)) =
        label_tooltip_text (subtitle_label s) \<and>
      image_source (cover_img (on_book_changed cache vm s)) = image_source (cover_img s) \<and>
      pixel_size (cover_img (on_book_changed cache vm s)) = pixel_size (cover_img s)) \<and>
   (\<forall>b. book vm = Some b \<longrightarrow>
      label_visible (title_label (on_book_changed cache vm s)) \<and>
      label_visible (subtitle_label (on_book_changed cache vm s)) \<and>
      image_visible (cover_img (on_book_changed cache vm s)) \<and>
      sb_visible (seek_bar (on_book_changed cache vm s)) \<and>
      label_text (title_label (on_book_changed cache vm s)) = book_name b \<and>
      label_text (subtitle_label (on_book_changed cache vm s)) =
        chapter_name (current_chapter b) \<and>
      label_tooltip_text (title_label (on_book_changed cache vm s)) = book_name b \<and>
      label_tooltip_text (subtitle_label (on_book_changed cache vm s)) =
        chapter_name (current_chapter b))"
  by (auto simp add: on_book_changed_def set_book_def show_media_information_def
      set_cover_image_def Let_def split: option.splits)

theorem on_book_changed_visibility_witness:
  "book idle_vm = None \<and>
   \<not> label_visible (title_label (on_book_changed no_artwork idle_vm example_world)) \<and>
   \<not> label_visible (subtitle_label (on_book_changed no_artwork idle_vm example_world)) \<and>
   \<not> image_visible (cover_img (on_book_changed no_artwork idle_vm example_world)) \<and>
   \<not> sb_visible (seek_bar (on_book_changed no_artwork idle_vm example_world)) \<and>
   label_text (title_label (on_book_changed no_artwork idle_vm example_world)) = ''Old title'' \<and>
   label_text (subtitle_label (on_book_changed no_artwork idle_vm example_world)) =
     ''Old chapter'' \<and>
   image_source (cover_img (on_book_changed no_artwork idle_vm example_world)) =
     From_paintable 7 \<and>
   book example_vm = Some example_book \<and>
   label_visible (title_label (on_book_changed no_artwork example_vm example_world)) \<and>
   sb_visible (seek_bar (on_book_changed no_artwork example_vm example_world)) \<and>
   label_text (title_label (on_book_changed no_artwork example_vm example_world)) =
     ''Dracula'' \<and>
   label_text (subtitle_label (on_book_changed no_artwork example_vm example_world)) =
     ''Chapter 1''"
  using on_book_changed_visibility [of idle_vm no_artwork example_world]
        on_book_changed_visibility [of example_vm no_artwork example_world]
  by (simp add: idle_vm_def example_vm_def example_world_def example_book_def)

text \<open>
  C10: when the view model's \<open>relative_position\<close> is \<open>None\<close>,
  \<open>_on_position_changed\<close> changes nothing; otherwise it sets the seek bar's position to
  exactly that value and changes nothing else.
\<close>

theorem on_position_changed_sets_position_or_nothing:
  "(relative_position vm = None \<longrightarrow> on_position_changed vm s = s) \<and>
   (\<forall>p. relative_position vm = Some p \<longrightarrow>
      sb_position (seek_bar (on_position_changed vm s)) = p \<and>
      on_position_changed vm s = s\<lparr>seek_bar := (seek_bar s)\<lparr>sb_position := p\<rparr>\<rparr>)"
  by (simp add: on_position_changed_def)

theorem on_position_changed_witness:
  "relative_position idle_vm = None \<and>
   on_position_changed idle_vm example_world = example_world \<and>
   relative_position example_vm = Some 42 \<and>
   sb_position (seek_bar example_world) = 10 \<and>
   sb_position (seek_bar (on_position_changed example_vm example_world)) = 42"
  using on_position_changed_sets_position_or_nothing [of idle_vm example_world]
        on_position_changed_sets_position_or_nothing [of example_vm example_world]
  by (simp add: idle_vm_def example_vm_def example_world_def)

section \<open>Binding and notification\<close>

lemma invoke_all_trace:
  "invoke_all run cbs st t = (fst t @ cbs, fold (\<lambda>cb. run cb st) cbs (snd t))"
proof (induction cbs arbitrary: t)
  case Nil
  show ?case by simp
next
  case (Cons cb cbs)
  show ?case by (simp add: Cons.IH invoke_def)
qed

lemma notify_trace:
  "notify run P subj w =
     (callbacks_for subj P, fold (\<lambda>cb. run cb (state subj)) (callbacks_for subj P) w)"
  by (simp add: notify_def invoke_all_trace)

lemma callbacks_for_bind_other:
  "P \<noteq> Q \<Longrightarrow> callbacks_for (snd (bind strict P cb subj)) Q = callbacks_for subj Q"
  by (simp add: bind_def callbacks_for_def)

lemma callbacks_for_state_update [simp]:
  "callbacks_for (subj\<lparr>state := x\<rparr>) P = callbacks_for subj P"
  by (simp add: callbacks_for_def)

lemma callbacks_for_bind_permissive:
  "callbacks_for (snd (bind False Q cb subj)) P =
     (if Q = P then callbacks_for subj P @ [cb] else callbacks_for subj P)"
  by (simp add: bind_def callbacks_for_def)

lemma callbacks_for_bind_all:
  "callbacks_for (bind_all bs subj) P =
     callbacks_for subj P @ map snd (filter (\<lambda>b. fst b = P) bs)"
proof (induction bs arbitrary: subj)
  case Nil
  show ?case by (simp add: bind_all_def)
next
  case (Cons b bs)
  obtain Q cb where b: "b = (Q, cb)" by (cases b)
  have "bind_all (b # bs) subj = bind_all bs (snd (bind False Q cb subj))"
    by (simp add: bind_all_def b)
  then show ?case
    by (simp add: Cons.IH callbacks_for_bind_permissive b)
qed

text \<open>
  C1: a notification for \<open>P\<close> invokes the callbacks registered for \<open>P\<close>, all of them,
  in registration order, each as often as it is registered (once per registration), and
  each reads the Subject's state as it is when \<open>notify\<close> runs. After any sequence of
  \<open>bind\<close> calls, the callbacks invoked for \<open>P\<close> are those registered before, followed by
  the ones the sequence binds to \<open>P\<close>, in the order of the calls: \<open>cb1\<close> bound before
  \<open>cb2\<close> runs before it. A mutation assigns, then notifies, so the callbacks see the new
  value. For the Subject the controller observes, a notification for one of the six
  names invokes the one callback \<open>_connect_view_model\<close> bound to it, and a notification
  for any other name invokes none.
\<close>

theorem notify_invokes_registered_callbacks_in_order:
  "notify run P subj w =
     (callbacks_for subj P, fold (\<lambda>cb. run cb (state subj)) (callbacks_for subj P) w) \<and>
   (\<forall>cb. count_list (fst (notify run P subj w)) cb = count_list (callbacks_for subj P) cb) \<and>
   fst (notify run P (bind_all bs subj) w) =
     callbacks_for subj P @ map snd (filter (\<lambda>b. fst b = P) bs) \<and>
   fst (notify run P (snd (bind False P cb2 (snd (bind False P cb1 subj)))) w) =
     callbacks_for subj P @ [cb1, cb2] \<and>
   set_property run P assign subj w =
     (subj\<lparr>state := assign (state subj)\<rparr>, callbacks_for subj P,
      fold (\<lambda>cb. run cb (assign (state subj))) (callbacks_for subj P) w) \<and>
   fst (notify run' P (observed_subject vm (new_calls s (connect_view_model s))) w') =
     map snd (filter (\<lambda>b. fst b = P)
       [(''book'', On_book_changed), (''playing'', On_play_changed),
        (''length'', On_length_changed), (''position'', On_position_changed),
        (''lock_ui'', On_lock_ui_changed), (''volume'', On_volume_changed)])"
proof -
  have once: "\<forall>cb. count_list (fst (notify run P subj w)) cb =
      count_list (callbacks_for subj P) cb"
    by (simp add: notify_trace)
  have order: "fst (notify run P (bind_all bs subj) w) =
      callbacks_for subj P @ map snd (filter (\<lambda>b. fst b = P) bs)"
    by (simp add: notify_trace callbacks_for_bind_all)
  have two: "fst (notify run P (snd (bind False P cb2 (snd (bind False P cb1 subj)))) w) =
      callbacks_for subj P @ [cb1, cb2]"
    by (simp add: notify_trace callbacks_for_bind_permissive)
  have mutate: "set_property run P assign subj w =
     (subj\<lparr>state := assign (state subj)\<rparr>, callbacks_for subj P,
      fold (\<lambda>cb. run cb (assign (state subj))) (callbacks_for subj P) w)"
    by (simp add: set_property_def Let_def notify_trace)
  have observed: "fst (notify run' P
        (observed_subject vm (new_calls s (connect_view_model s))) w') =
     map snd (filter (\<lambda>b. fst b = P)
       [(''book'', On_book_changed), (''playing'', On_play_changed),
        (''length'', On_length_changed), (''position'', On_position_changed),
        (''lock_ui'', On_lock_ui_changed), (''volume'', On_volume_changed)])"
    unfolding notify_trace observed_subject_def bindings_connect_view_model
      callbacks_for_bind_all
    by (simp add: callbacks_for_def)
  from notify_trace [of run P subj w] once order two mutate observed show ?thesis
    by blast
qed

text \<open>
  C4: for distinct names \<open>P\<close> and \<open>Q\<close>, a callback bound only to \<open>P\<close> is not invoked
  by a notification for \<open>Q\<close> nor by a mutation of \<open>Q\<close>, and binding a callback to \<open>P\<close>
  does not change which callbacks a notification for \<open>Q\<close> invokes. The instance that
  follows is the controller's own: a change of "volume" invokes \<open>_on_volume_changed\<close>
  only, not \<open>_on_book_changed\<close>, which is bound only to "book".
\<close>

theorem notify_frame:
  assumes "P \<noteq> Q"
    and "cb \<in> set (callbacks_for subj P)"
    and "\<forall>R. R \<noteq> P \<longrightarrow> cb \<notin> set (callbacks_for subj R)"
  shows "cb \<notin> set (fst (notify run Q subj w)) \<and>
         cb \<notin> set (fst (snd (set_property run Q assign subj w))) \<and>
         fst (notify run Q (snd (bind strict P cb' subj)) w) = fst (notify run Q subj w)"
  using assms by (simp add: notify_trace set_property_def Let_def callbacks_for_bind_other)

text \<open>
  C7: with strict validation, \<open>bind\<close> with a name the Subject does not define raises
  \<open>UnknownPropertyError\<close> and leaves the Subject, and so the registry and the callbacks
  of every name, as they were.
\<close>

theorem strict_bind_unknown_property:
  assumes "strict" and "P \<notin> set (declared subj)"
  shows "bind strict P cb subj = (Some (UnknownPropertyError P), subj) \<and>
         registry (snd (bind strict P cb subj)) = registry subj \<and>
         (\<forall>Q. callbacks_for (snd (bind strict P cb subj)) Q = callbacks_for subj Q)"
  using assms by (simp add: bind_def)

lemma registry_observed_subject:
  "registry (observed_subject vm (new_calls s (connect_view_model s))) =
     [''book'' \<mapsto> [On_book_changed], ''playing'' \<mapsto> [On_play_changed],
      ''length'' \<mapsto> [On_length_changed], ''position'' \<mapsto> [On_position_changed],
      ''lock_ui'' \<mapsto> [On_lock_ui_changed], ''volume'' \<mapsto> [On_volume_changed]]"
  by (simp add: observed_subject_def bindings_connect_view_model bind_all_def bind_def
      callbacks_for_def)

lemma state_observed_subject:
  "state (observed_subject vm (new_calls s (connect_view_model s))) = vm"
  by (simp add: observed_subject_def bindings_connect_view_model bind_all_def bind_def
      callbacks_for_def)

lemma declared_observed_subject:
  "declared (observed_subject vm (new_calls s (connect_view_model s))) =
     [''book'', ''playing'', ''length'', ''position'', ''lock_ui'', ''volume'']"
  by (simp add: observed_subject_def bindings_connect_view_model bind_all_def bind_def
      callbacks_for_def)

lemma callbacks_observed_volume:
  "callbacks_for (observed_subject vm (new_calls s (connect_view_model s))) ''volume'' =
     [On_volume_changed]"
  by (simp add: callbacks_for_def registry_observed_subject)

lemma callbacks_observed_book:
  "callbacks_for (observed_subject vm (new_calls s (connect_view_model s))) ''book'' =
     [On_book_changed]"
  by (simp add: callbacks_for_def registry_observed_subject)

lemma book_callback_bound_only_to_book:
  "R \<noteq> ''book'' \<Longrightarrow>
   On_book_changed \<notin>
     set (callbacks_for (observed_subject vm (new_calls s (connect_view_model s))) R)"
  by (simp add: callbacks_for_def registry_observed_subject)

theorem notify_frame_witness:
  "''book'' \<noteq> ''volume'' \<and>
   On_book_changed \<in> set (callbacks_for
      (observed_subject example_vm (new_calls example_world (connect_view_model example_world)))
      ''book'') \<and>
   On_book_changed \<notin> set (fst (notify (call_callback no_artwork) ''volume''
      (observed_subject example_vm (new_calls example_world (connect_view_model example_world)))
      example_world)) \<and>
   fst (notify (call_callback no_artwork) ''volume''
      (observed_subject example_vm (new_calls example_world (connect_view_model example_world)))
      example_world) = [On_volume_changed]"
proof -
  let ?subj = "observed_subject example_vm
      (new_calls example_world (connect_view_model example_world))"
  have 1: "''book'' \<noteq> ''volume''" by simp
  have 2: "On_book_changed \<in> set (callbacks_for ?subj ''book'')"
    by (simp add: callbacks_observed_book)
  have 3: "\<forall>R. R \<noteq> ''book'' \<longrightarrow> On_book_changed \<notin> set (callbacks_for ?subj R)"
    by (simp add: book_callback_bound_only_to_book)
  have 4: "fst (notify (call_callback no_artwork) ''volume'' ?subj example_world) =
      [On_volume_changed]"
    by (simp add: notify_trace callbacks_observed_volume)
  from notify_frame [OF 1 2 3, of "call_callback no_artwork" example_world] 1 2 4
  show ?thesis by blast
qed

text \<open>
  C5: the six callbacks take no value: each reads its property from the view model as
  it is when the callback runs, and what it writes to its widget is that value. On the
  Subject the controller observes, setting \<open>volume\<close> to \<open>v\<close> invokes exactly
  \<open>_on_volume_changed\<close>, once, and the value it reads and assigns to the volume button
  is \<open>v\<close>; nothing else of the controller's state changes.
\<close>

theorem volume_callback_reads_current_value:
  "volume_button_value (call_callback cache On_volume_changed vm s) = volume vm \<and>
   play_button_icon_name (call_callback cache On_play_changed vm s) =
     (if playing vm then ''media-playback-pause-symbolic''
      else ''media-playback-start-symbolic'') \<and>
   container_bar_reveal_child (call_callback cache On_lock_ui_changed vm s) =
     (\<not> lock_ui vm) \<and>
   sb_position (seek_bar (call_callback cache On_position_changed vm s)) =
     (case relative_position vm of None \<Rightarrow> sb_position (seek_bar s) | Some p \<Rightarrow> p) \<and>
   sb_length (seek_bar (call_callback cache On_length_changed vm s)) =
     (if length_vm vm \<noteq> 0 then length_vm vm else sb_length (seek_bar s)) \<and>
   label_visible (title_label (call_callback cache On_book_changed vm s)) =
     (book vm \<noteq> None) \<and>
   set_property (call_callback cache) ''volume'' (\<lambda>m. m\<lparr>volume := v\<rparr>)
      (observed_subject vm (new_calls s0 (connect_view_model s0))) s =
     ((observed_subject vm (new_calls s0 (connect_view_model s0)))\<lparr>state := vm\<lparr>volume := v\<rparr>\<rparr>,
      [On_volume_changed], s\<lparr>volume_button_value := v\<rparr>)"
proof -
  have reads: "volume_button_value (call_callback cache On_volume_changed vm s) = volume vm"
    "play_button_icon_name (call_callback cache On_play_changed vm s) =
     (if playing vm then ''media-playback-pause-symbolic''
      else ''media-playback-start-symbolic'')"
    "container_bar_reveal_child (call_callback cache On_lock_ui_changed vm s) =
     (\<not> lock_ui vm)"
    "sb_position (seek_bar (call_callback cache On_position_changed vm s)) =
     (case relative_position vm of None \<Rightarrow> sb_position (seek_bar s) | Some p \<Rightarrow> p)"
    "sb_length (seek_bar (call_callback cache On_length_changed vm s)) =
     (if length_vm vm \<noteq> 0 then length_vm vm else sb_length (seek_bar s))"
    by (simp_all add: on_volume_changed_def on_play_changed_def on_lock_ui_changed_def
        on_position_changed_def on_length_changed_def Let_def split: option.splits)
  have title: "label_visible (title_label (call_callback cache On_book_changed vm s)) =
     (book vm \<noteq> None)"
    by (cases "book vm")
       (simp_all add: on_book_changed_def show_media_information_def Let_def)
  have scenario: "set_property (call_callback cache) ''volume'' (\<lambda>m. m\<lparr>volume := v\<rparr>)
      (observed_subject vm (new_calls s0 (connect_view_model s0))) s =
     ((observed_subject vm (new_calls s0 (connect_view_model s0)))\<lparr>state := vm\<lparr>volume := v\<rparr>\<rparr>,
      [On_volume_changed], s\<lparr>volume_button_value := v\<rparr>)"
    by (simp add: set_property_def Let_def notify_trace callbacks_observed_volume
        state_observed_subject on_volume_changed_def)
  from reads title scenario show ?thesis by blast
qed

theorem strict_bind_unknown_property_witness:
  "''volum'' \<notin> set (declared
      (observed_subject example_vm (new_calls example_world (connect_view_model example_world)))) \<and>
   bind True ''volum'' On_volume_changed
      (observed_subject example_vm (new_calls example_world (connect_view_model example_world))) =
     (Some (UnknownPropertyError ''volum''),
      observed_subject example_vm (new_calls example_world (connect_view_model example_world))) \<and>
   callbacks_for (snd (bind True ''volum'' On_volume_changed
      (observed_subject example_vm (new_calls example_world (connect_view_model example_world)))))
      ''volum'' = []"
proof -
  let ?subj = "observed_subject example_vm
      (new_calls example_world (connect_view_model example_world))"
  have 1: "''volum'' \<notin> set (declared ?subj)"
    by (simp add: declared_observed_subject)
  have 2: "callbacks_for ?subj ''volum'' = []"
    by (simp add: callbacks_for_def registry_observed_subject)
  from strict_bind_unknown_property [OF TrueI 1, of On_volume_changed] 1 2
  show ?thesis by simp
qed

end
